theory Spec2Isabelle
  imports Complex_Main
begin

section \<open>Data model of the semantic router\<close>

text \<open>
  The development follows \<^verbatim>\<open>route.go\<close> (package semanticrouter) and
  \<^verbatim>\<open>stores/memory/memory.go\<close>. A Go \<^verbatim>\<open>float64\<close> score is idealised as a
  \<^typ>\<open>real\<close>; a \<^verbatim>\<open>[]float64\<close> slice (and a gonum \<^verbatim>\<open>*mat.VecDense\<close> built
  from it) is a \<^typ>\<open>real list\<close>, the nil slice being the empty list. The
  \<^verbatim>\<open>context.Context\<close> argument of the ports carries no data the router reads; a
  cancelled context is one of the ways a port call can fail. The gonum library is not
  part of the repository: \<^verbatim>\<open>mat.NewVecDense(len(v), v)\<close> is taken to return the
  vector of \<open>v\<close> and \<^verbatim>\<open>Len\<close> its length, and the library's own preconditions are
  left out.
\<close>

text \<open>
  Errors. \<^verbatim>\<open>ErrEncoding{Message}\<close>, \<^verbatim>\<open>ErrGetEmbedding{Message}\<close> and
  \<^verbatim>\<open>ErrNoRouteFound{Message, Utterance}\<close> are the struct literals built in
  \<^verbatim>\<open>Match\<close>. \<open>Errorf p e\<close> is \<^verbatim>\<open>fmt.Errorf\<close> with a format ending in
  \<^verbatim>\<open>%w\<close>: \<open>p\<close> is the formatted text in front of the verb and \<open>e\<close> the wrapped
  error (\<open>None\<close> when the wrapped value is nil). \<open>PortError m\<close> is an error value
  handed back by an external collaborator, with message \<open>m\<close>.
\<close>

datatype error =
    PortError string
  | ErrEncoding string
  | ErrGetEmbedding string
  | ErrNoRouteFound string string
  | Errorf string "error option"

text \<open>
  \<^verbatim>\<open>domain.Utterance\<close> is declared outside the files at hand; the two fields read
  and written here are \<^verbatim>\<open>Utterance\<close> (the text) and \<^verbatim>\<open>Embed\<close> (the vector).
\<close>

record Utterance =
  Utterance :: string
  Embed :: "real list"

record Route =
  Name :: string
  Utterances :: "Utterance list"

text \<open>The \<^verbatim>\<open>Encoder\<close> interface: one method, \<^verbatim>\<open>Encode\<close>.\<close>

type_synonym Encoder = "string \<Rightarrow> error + real list"

text \<open>
  The \<^verbatim>\<open>Store\<close> interface over a backend state \<open>'s\<close>: \<^verbatim>\<open>Store\<close> returns its
  error (or nil) and the state it leaves behind, \<^verbatim>\<open>Get\<close> reads the state.
\<close>

record 's Store =
  Store :: "Utterance \<Rightarrow> 's \<Rightarrow> error option \<times> 's"
  Get :: "string \<Rightarrow> 's \<Rightarrow> error + real list"

record biFuncCoefficient =
  Func :: "real list \<Rightarrow> real list \<Rightarrow> real"
  Coefficient :: real

record 's Router =
  Routes :: "Route list"
  Encoder :: Encoder
  Storage :: "'s Store"
  biFuncCoefficients :: "biFuncCoefficient list"

type_synonym 's Option = "'s Router \<Rightarrow> 's Router"

section \<open>Similarity functions\<close>

text \<open>
  Modelled from the spec: \<^verbatim>\<open>SimilarityDotMatrix\<close>, \<^verbatim>\<open>EuclideanDistance\<close>,
  \<^verbatim>\<open>ManhattanDistance\<close>, \<^verbatim>\<open>JaccardSimilarity\<close> and \<^verbatim>\<open>PearsonCorrelation\<close>
  are named by \<^verbatim>\<open>route.go\<close> but defined in a file that is not at hand. The spec gives
  the dot product as the sum of \<open>query[i] * candidate[i]\<close>, the Euclidean distance as
  \<open>sqrt(sum((query[i]-candidate[i])^2))\<close>, the Manhattan distance as
  \<open>sum(|query[i]-candidate[i]|)\<close>, the Jaccard similarity in its generalised form
  \<open>sum(min(q_i,c_i)) / sum(max(q_i,c_i))\<close>, and the Pearson correlation as the standard
  coefficient, 0 when either vector has zero variance.
\<close>

definition SimilarityDotMatrix :: "real list \<Rightarrow> real list \<Rightarrow> real" where
  "SimilarityDotMatrix queryVec indexVec = sum_list (map2 (*) queryVec indexVec)"

definition EuclideanDistance :: "real list \<Rightarrow> real list \<Rightarrow> real" where
  "EuclideanDistance queryVec indexVec =
     sqrt (sum_list (map2 (\<lambda>a b. (a - b) * (a - b)) queryVec indexVec))"

definition ManhattanDistance :: "real list \<Rightarrow> real list \<Rightarrow> real" where
  "ManhattanDistance queryVec indexVec =
     sum_list (map2 (\<lambda>a b. \<bar>a - b\<bar>) queryVec indexVec)"

definition JaccardSimilarity :: "real list \<Rightarrow> real list \<Rightarrow> real" where
  "JaccardSimilarity queryVec indexVec =
     sum_list (map2 min queryVec indexVec) / sum_list (map2 max queryVec indexVec)"

definition mean :: "real list \<Rightarrow> real" where
  "mean xs = sum_list xs / real (length xs)"

definition PearsonCorrelation :: "real list \<Rightarrow> real list \<Rightarrow> real" where
  "PearsonCorrelation queryVec indexVec =
     (let dq = map (\<lambda>a. a - mean queryVec) queryVec;
          di = map (\<lambda>b. b - mean indexVec) indexVec;
          vq = sum_list (map (\<lambda>a. a * a) dq);
          vi = sum_list (map (\<lambda>b. b * b) di)
      in if vq = 0 \<or> vi = 0 then 0
         else sum_list (map2 (*) dq di) / (sqrt vq * sqrt vi))"

section \<open>Configuration options\<close>

text \<open>
  Each option is a function on the router that appends one
  \<^verbatim>\<open>biFuncCoefficient\<close> to \<^verbatim>\<open>r.biFuncCoefficients\<close>.
\<close>

definition WithSimilarityDotMatrix :: "real \<Rightarrow> 's Option" where
  "WithSimilarityDotMatrix coefficient =
     (\<lambda>r. r\<lparr>biFuncCoefficients := biFuncCoefficients r @
        [\<lparr>Func = SimilarityDotMatrix, Coefficient = coefficient\<rparr>]\<rparr>)"

definition WithEuclideanDistance :: "real \<Rightarrow> 's Option" where
  "WithEuclideanDistance coefficient =
     (\<lambda>r. r\<lparr>biFuncCoefficients := biFuncCoefficients r @
        [\<lparr>Func = EuclideanDistance, Coefficient = coefficient\<rparr>]\<rparr>)"

definition WithManhattanDistance :: "real \<Rightarrow> 's Option" where
  "WithManhattanDistance coefficient =
     (\<lambda>r. r\<lparr>biFuncCoefficients := biFuncCoefficients r @
        [\<lparr>Func = ManhattanDistance, Coefficient = coefficient\<rparr>]\<rparr>)"

definition WithJaccardSimilarity :: "real \<Rightarrow> 's Option" where
  "WithJaccardSimilarity coefficient =
     (\<lambda>r. r\<lparr>biFuncCoefficients := biFuncCoefficients r @
        [\<lparr>Func = JaccardSimilarity, Coefficient = coefficient\<rparr>]\<rparr>)"

definition WithPearsonCorrelation :: "real \<Rightarrow> 's Option" where
  "WithPearsonCorrelation coefficient =
     (\<lambda>r. r\<lparr>biFuncCoefficients := biFuncCoefficients r @
        [\<lparr>Func = PearsonCorrelation, Coefficient = coefficient\<rparr>]\<rparr>)"

section \<open>Router construction\<close>

text \<open>
  Modelled from the spec: \<^verbatim>\<open>SetEmbedding\<close> is a method of \<^verbatim>\<open>domain.Utterance\<close>,
  which is not at hand; the spec has it attach the vector to the utterance.
  \<^verbatim>\<open>NewRouter\<close> below takes the method as a parameter, so that its failure branch is
  kept; this definition is the instance used in the examples.
\<close>

definition SetEmbedding :: "Utterance \<Rightarrow> real list \<Rightarrow> error option \<times> Utterance" where
  "SetEmbedding u embedding = (None, u\<lparr>Embed := embedding\<rparr>)"

text \<open>
  The inner loop \<^verbatim>\<open>for _, utter := range utters\<close>. The loop variable is a copy of
  the slice element: \<^verbatim>\<open>SetEmbedding\<close> changes the copy, and the copy is what
  \<^verbatim>\<open>store.Store\<close> receives. The result is the error returned (if any) and the
  state of the store backend.
\<close>

fun encodeUtterances ::
  "(Utterance \<Rightarrow> real list \<Rightarrow> error option \<times> Utterance) \<Rightarrow> Encoder \<Rightarrow> 's Store \<Rightarrow>
   Utterance list \<Rightarrow> 's \<Rightarrow> error option \<times> 's" where
  "encodeUtterances setEmbedding encoder store [] st = (None, st)"
| "encodeUtterances setEmbedding encoder store (utter # utters) st =
     (case encoder (Utterance utter) of
        Inl err \<Rightarrow> (Some (Errorf ''error encoding utterance: '' (Some err)), st)
      | Inr en \<Rightarrow>
          (case setEmbedding utter en of
             (Some err, utter') \<Rightarrow> (Some (Errorf ''error encoding utterance: '' (Some err)), st)
           | (None, utter') \<Rightarrow>
               (case Store store utter' st of
                  (Some err, st') \<Rightarrow>
                    (Some (Errorf (''error storing utterance: '' @ Utterance utter' @ '': '')
                       (Some err)), st')
                | (None, st') \<Rightarrow> encodeUtterances setEmbedding encoder store utters st')))"

text \<open>The outer loop \<^verbatim>\<open>for i := 0; i < routesLen; i++\<close>.\<close>

fun encodeRoutes ::
  "(Utterance \<Rightarrow> real list \<Rightarrow> error option \<times> Utterance) \<Rightarrow> Encoder \<Rightarrow> 's Store \<Rightarrow>
   Route list \<Rightarrow> 's \<Rightarrow> error option \<times> 's" where
  "encodeRoutes setEmbedding encoder store [] st = (None, st)"
| "encodeRoutes setEmbedding encoder store (route # routes) st =
     (case encodeUtterances setEmbedding encoder store (Utterances route) st of
        (Some err, st') \<Rightarrow> (Some err, st')
      | (None, st') \<Rightarrow> encodeRoutes setEmbedding encoder store routes st')"

text \<open>
  \<^verbatim>\<open>NewRouter\<close>: the router (or the error) and the state of the store backend
  afterwards. The returned struct literal sets \<^verbatim>\<open>Routes\<close>, \<^verbatim>\<open>Encoder\<close> and
  \<^verbatim>\<open>Storage\<close>; \<^verbatim>\<open>biFuncCoefficients\<close> keeps its zero value, and the body never
  reads \<^verbatim>\<open>opts\<close>.
\<close>

definition NewRouter ::
  "(Utterance \<Rightarrow> real list \<Rightarrow> error option \<times> Utterance) \<Rightarrow> Route list \<Rightarrow> Encoder \<Rightarrow>
   's Store \<Rightarrow> 's \<Rightarrow> 's Option list \<Rightarrow> (error + 's Router) \<times> 's" where
  "NewRouter setEmbedding routes encoder store st opts =
     (case encodeRoutes setEmbedding encoder store routes st of
        (Some err, st') \<Rightarrow> (Inl err, st')
      | (None, st') \<Rightarrow>
          (Inr \<lparr>Routes = routes, Encoder = encoder, Storage = store,
                biFuncCoefficients = []\<rparr>, st'))"

section \<open>Matching\<close>

text \<open>
  \<^verbatim>\<open>computeScore\<close>: the loop \<^verbatim>\<open>score += fn.Coefficient * fn.Func(queryVec, indexVec)\<close>
  over \<^verbatim>\<open>r.biFuncCoefficients\<close>, starting from \<^verbatim>\<open>score := 0.0\<close>.
\<close>

fun scoreLoop :: "biFuncCoefficient list \<Rightarrow> real list \<Rightarrow> real list \<Rightarrow> real \<Rightarrow> real" where
  "scoreLoop [] queryVec indexVec score = score"
| "scoreLoop (fn # fns) queryVec indexVec score =
     scoreLoop fns queryVec indexVec (score + Coefficient fn * Func fn queryVec indexVec)"

definition computeScore :: "'s Router \<Rightarrow> real list \<Rightarrow> real list \<Rightarrow> real" where
  "computeScore r queryVec indexVec = scoreLoop (biFuncCoefficients r) queryVec indexVec 0"

text \<open>
  The inner loop of \<^verbatim>\<open>Match\<close> over the utterances of the route called \<open>name\<close>,
  with the running \<^verbatim>\<open>(bestRouteName, bestScore)\<close>.
\<close>

fun scanUtterances ::
  "'s Router \<Rightarrow> 's \<Rightarrow> real list \<Rightarrow> string \<Rightarrow> Utterance list \<Rightarrow> string \<times> real \<Rightarrow>
   error + string \<times> real" where
  "scanUtterances r st queryVec name [] best = Inr best"
| "scanUtterances r st queryVec name (ut # uts) best =
     (case Get (Storage r) (Utterance ut) st of
        Inl err \<Rightarrow> Inl (ErrGetEmbedding (''error getting embedding: '' @ Utterance ut))
      | Inr em \<Rightarrow>
          if length em \<noteq> length queryVec then scanUtterances r st queryVec name uts best
          else if computeScore r queryVec em > snd best
            then scanUtterances r st queryVec name uts (name, computeScore r queryVec em)
            else scanUtterances r st queryVec name uts best)"

text \<open>The outer loop \<^verbatim>\<open>for _, route := range r.Routes\<close>.\<close>

fun scanRoutes ::
  "'s Router \<Rightarrow> 's \<Rightarrow> real list \<Rightarrow> Route list \<Rightarrow> string \<times> real \<Rightarrow> error + string \<times> real" where
  "scanRoutes r st queryVec [] best = Inr best"
| "scanRoutes r st queryVec (route # routes) best =
     (case scanUtterances r st queryVec (Name route) (Utterances route) best of
        Inl err \<Rightarrow> Inl err
      | Inr best' \<Rightarrow> scanRoutes r st queryVec routes best')"

text \<open>
  \<^verbatim>\<open>Match\<close>. The single task of the error group runs to its end and
  \<^verbatim>\<open>eg.Wait\<close> hands its error back, which \<^verbatim>\<open>Match\<close> wraps; the named results start
  at \<^verbatim>\<open>""\<close> and \<^verbatim>\<open>0.0\<close>.
\<close>

definition Match :: "'s Router \<Rightarrow> 's \<Rightarrow> string \<Rightarrow> error + string \<times> real" where
  "Match r st utterance =
     (case Encoder r utterance of
        Inl err \<Rightarrow>
          Inl (Errorf ''no route found: ''
            (Some (ErrEncoding (''error encoding utterance: '' @ utterance))))
      | Inr encoding \<Rightarrow>
          (case scanRoutes r st encoding (Routes r) ('''', 0) of
             Inl err \<Rightarrow> Inl (Errorf ''no route found: '' (Some err))
           | Inr (bestRouteName, bestScore) \<Rightarrow>
               if bestRouteName = ''''
               then Inl (Errorf ''no route found: ''
                      (Some (ErrNoRouteFound ''no route found'' utterance)))
               else Inr (bestRouteName, bestScore)))"


text \<open>
  The two nested loops of \<^verbatim>\<open>Match\<close> visit the utterances in one fixed order, each
  with the name of its route: \<open>scanOrder\<close> lists them, and \<open>scanPairs\<close> is the loop
  body run along such a list.
\<close>

definition scanOrder :: "Route list \<Rightarrow> (string \<times> Utterance) list" where
  "scanOrder routes =
     concat (map (\<lambda>route. map (Pair (Name route)) (Utterances route)) routes)"

fun scanPairs ::
  "'s Router \<Rightarrow> 's \<Rightarrow> real list \<Rightarrow> (string \<times> Utterance) list \<Rightarrow> string \<times> real \<Rightarrow>
   error + string \<times> real" where
  "scanPairs r st queryVec [] best = Inr best"
| "scanPairs r st queryVec (p # ps) best =
     (case Get (Storage r) (Utterance (snd p)) st of
        Inl err \<Rightarrow> Inl (ErrGetEmbedding (''error getting embedding: '' @ Utterance (snd p)))
      | Inr em \<Rightarrow>
          if length em \<noteq> length queryVec then scanPairs r st queryVec ps best
          else if computeScore r queryVec em > snd best
            then scanPairs r st queryVec ps (fst p, computeScore r queryVec em)
            else scanPairs r st queryVec ps best)"

text \<open>
  The candidates that reach the comparison \<^verbatim>\<open>simScore > bestScore\<close>, in scan order:
  the route name and the computed score of every utterance whose stored embedding was
  retrieved and has the length of the query vector.
\<close>

fun scored ::
  "'s Router \<Rightarrow> 's \<Rightarrow> real list \<Rightarrow> (string \<times> Utterance) list \<Rightarrow> (string \<times> real) list" where
  "scored r st queryVec [] = []"
| "scored r st queryVec (p # ps) =
     (case Get (Storage r) (Utterance (snd p)) st of
        Inl err \<Rightarrow> scored r st queryVec ps
      | Inr em \<Rightarrow>
          if length em \<noteq> length queryVec then scored r st queryVec ps
          else (fst p, computeScore r queryVec em) # scored r st queryVec ps)"

definition candidates :: "'s Router \<Rightarrow> 's \<Rightarrow> real list \<Rightarrow> (string \<times> real) list" where
  "candidates r st queryVec = scored r st queryVec (scanOrder (Routes r))"

text \<open>The update \<^verbatim>\<open>if simScore > bestScore { ... }\<close> on its own.\<close>

definition better :: "string \<times> real \<Rightarrow> string \<times> real \<Rightarrow> string \<times> real" where
  "better best c = (if snd c > snd best then c else best)"

text \<open>
  For construction: the utterances in processing order, and the copy of an utterance
  that the loop hands to the store once the encoder has answered.
\<close>

definition allUtterances :: "Route list \<Rightarrow> Utterance list" where
  "allUtterances routes = concat (map Utterances routes)"

definition embedded ::
  "(Utterance \<Rightarrow> real list \<Rightarrow> error option \<times> Utterance) \<Rightarrow> Encoder \<Rightarrow> Utterance \<Rightarrow> Utterance" where
  "embedded setEmbedding encoder utter =
     (case encoder (Utterance utter) of
        Inl err \<Rightarrow> utter
      | Inr en \<Rightarrow> snd (setEmbedding utter en))"

section \<open>The in-memory store\<close>

text \<open>
  \<^verbatim>\<open>memory.Store\<close>: the field \<^verbatim>\<open>store\<close> is a Go map, \<open>None\<close> when it is nil
  (after \<^verbatim>\<open>Close\<close>). The mutex is not modelled. Reading a nil map finds no key;
  assigning to an entry of a nil map panics.
\<close>

record memory_Store =
  store :: "(string \<rightharpoonup> real list) option"

datatype panic = AssignmentToEntryInNilMap

definition memory_NewStore :: memory_Store where
  "memory_NewStore = \<lparr>store = Some Map.empty\<rparr>"

definition memory_Get :: "memory_Store \<Rightarrow> string \<Rightarrow> error + real list" where
  "memory_Get s utterance =
     (case (case store s of None \<Rightarrow> None | Some m \<Rightarrow> m utterance) of
        None \<Rightarrow> Inl (Errorf ''key does not exist: '' None)
      | Some embedding \<Rightarrow> Inr embedding)"

definition memory_Set :: "memory_Store \<Rightarrow> Utterance \<Rightarrow> panic + error option \<times> memory_Store" where
  "memory_Set s utterance =
     (case store s of
        None \<Rightarrow> Inl AssignmentToEntryInNilMap
      | Some m \<Rightarrow> Inr (None, s\<lparr>store := Some (m(Utterance utterance \<mapsto> Embed utterance))\<rparr>))"

definition memory_Close :: "memory_Store \<Rightarrow> error option \<times> memory_Store" where
  "memory_Close s = (if store s = None then (None, s) else (None, s\<lparr>store := None\<rparr>))"

text \<open>A history of calls on one store, stopping at a panic.\<close>

datatype call = CallSet Utterance | CallClose

fun memory_run :: "memory_Store \<Rightarrow> call list \<Rightarrow> panic + memory_Store" where
  "memory_run s [] = Inr s"
| "memory_run s (CallSet u # calls) =
     (case memory_Set s u of
        Inl p \<Rightarrow> Inl p
      | Inr (err, s') \<Rightarrow> memory_run s' calls)"
| "memory_run s (CallClose # calls) = memory_run (snd (memory_Close s)) calls"

text \<open>
  What a later call does to the entry of key \<open>k\<close>: \<open>disturbsKey\<close> holds of a
  \<^verbatim>\<open>Close\<close> and of a \<^verbatim>\<open>Set\<close> with that key, \<open>setsKey\<close> of a \<^verbatim>\<open>Set\<close> with that
  key only.
\<close>

fun setsKey :: "string \<Rightarrow> call \<Rightarrow> bool" where
  "setsKey k (CallSet u) = (Utterance u = k)"
| "setsKey k CallClose = False"

fun disturbsKey :: "string \<Rightarrow> call \<Rightarrow> bool" where
  "disturbsKey k (CallSet u) = (Utterance u = k)"
| "disturbsKey k CallClose = True"

section \<open>Example values\<close>

text \<open>
  A store backend for the examples: a map from texts to vectors behind the
  \<^verbatim>\<open>Store\<close> interface. An encoder that knows three texts and fails on every other.
\<close>

definition mapStore :: "(string \<rightharpoonup> real list) Store" where
  "mapStore =
     \<lparr>Store = (\<lambda>u m. (None, m(Utterance u \<mapsto> Embed u))),
      Get = (\<lambda>k m. case m k of None \<Rightarrow> Inl (PortError ''missing key'') | Some v \<Rightarrow> Inr v)\<rparr>"

definition exEncoder :: Encoder where
  "exEncoder text =
     (if text = ''hey'' then Inr [9 / 10, 1 / 10, 0]
      else if text = ''hi'' then Inr [1, 0, 0]
      else if text = ''hello'' then Inr [1, 0, 0]
      else Inl (PortError ''backend down''))"

definition exRoutes :: "Route list" where
  "exRoutes =
     [\<lparr>Name = ''chitchat'',
       Utterances = [\<lparr>Utterance = ''hi'', Embed = []\<rparr>, \<lparr>Utterance = ''bye'', Embed = []\<rparr>]\<rparr>,
      \<lparr>Name = ''greeting'', Utterances = [\<lparr>Utterance = ''hello'', Embed = []\<rparr>]\<rparr>]"

definition exKnownRoutes :: "Route list" where
  "exKnownRoutes =
     [\<lparr>Name = ''chitchat'', Utterances = [\<lparr>Utterance = ''hi'', Embed = []\<rparr>]\<rparr>,
      \<lparr>Name = ''greeting'', Utterances = [\<lparr>Utterance = ''hello'', Embed = []\<rparr>]\<rparr>]"

definition exRouter :: "(string \<rightharpoonup> real list) Router" where
  "exRouter =
     \<lparr>Routes = exRoutes, Encoder = exEncoder, Storage = mapStore,
      biFuncCoefficients = [\<lparr>Func = SimilarityDotMatrix, Coefficient = 1\<rparr>]\<rparr>"

definition exStored :: "string \<rightharpoonup> real list" where
  "exStored = [''hi'' \<mapsto> [1, 0, 0], ''bye'' \<mapsto> [5, 5], ''hello'' \<mapsto> [1, 0, 0]]"


section \<open>Facts about the loops\<close>

subsection \<open>Construction visits the utterances in one sequence\<close>

lemma encodeUtterances_append:
  "encodeUtterances se enc sto (xs @ ys) st =
     (case encodeUtterances se enc sto xs st of
        (Some err, st') \<Rightarrow> (Some err, st')
      | (None, st') \<Rightarrow> encodeUtterances se enc sto ys st')"
  by (induction xs arbitrary: st) (simp_all split: sum.splits prod.splits option.splits)

lemma encodeRoutes_flat:
  "encodeRoutes se enc sto routes st = encodeUtterances se enc sto (allUtterances routes) st"
  by (induction routes arbitrary: st)
     (simp_all add: allUtterances_def encodeUtterances_append split: prod.splits option.splits)

lemma encodeUtterances_success:
  "encodeUtterances se enc sto us st = (None, st') \<Longrightarrow>
     st' = foldl (\<lambda>s u. snd (Store sto u s)) st (map (embedded se enc) us) \<and>
     (\<forall>u\<in>set us. \<exists>en. enc (Utterance u) = Inr en)"
proof (induction us arbitrary: st)
  case Nil
  then show ?case by simp
next
  case (Cons u us)
  from Cons.prems obtain en u' st1 where
    s: "enc (Utterance u) = Inr en" "se u en = (None, u')" "Store sto u' st = (None, st1)"
       "encodeUtterances se enc sto us st1 = (None, st')"
    by (auto split: sum.splits prod.splits option.splits)
  from Cons.IH [OF s(4)] s(1-3) show ?case
    by (simp add: embedded_def)
qed

subsection \<open>The scan of \<^verbatim>\<open>Match\<close> as one loop\<close>

lemma scanUtterances_pairs:
  "scanUtterances r st q name uts best = scanPairs r st q (map (Pair name) uts) best"
  by (induction uts arbitrary: best) (simp_all split: sum.splits)

lemma scanPairs_append:
  "scanPairs r st q (ps @ qs) best =
     (case scanPairs r st q ps best of
        Inl err \<Rightarrow> Inl err
      | Inr best' \<Rightarrow> scanPairs r st q qs best')"
  by (induction ps arbitrary: best) (simp_all split: sum.splits)

lemma scanRoutes_pairs:
  "scanRoutes r st q routes best = scanPairs r st q (scanOrder routes) best"
  by (induction routes arbitrary: best)
     (simp_all add: scanOrder_def scanUtterances_pairs scanPairs_append split: sum.splits)

lemma scanOrder_append: "scanOrder (xs @ ys) = scanOrder xs @ scanOrder ys"
  by (simp add: scanOrder_def)

lemma scanOrder_Cons:
  "scanOrder (route # routes) = map (Pair (Name route)) (Utterances route) @ scanOrder routes"
  by (simp add: scanOrder_def)


lemma Match_pairs:
  "Match r st utterance =
     (case Encoder r utterance of
        Inl err \<Rightarrow>
          Inl (Errorf ''no route found: ''
            (Some (ErrEncoding (''error encoding utterance: '' @ utterance))))
      | Inr encoding \<Rightarrow>
          (case scanPairs r st encoding (scanOrder (Routes r)) ('''', 0) of
             Inl err \<Rightarrow> Inl (Errorf ''no route found: '' (Some err))
           | Inr (bestRouteName, bestScore) \<Rightarrow>
               if bestRouteName = ''''
               then Inl (Errorf ''no route found: ''
                      (Some (ErrNoRouteFound ''no route found'' utterance)))
               else Inr (bestRouteName, bestScore)))"
  by (simp add: Match_def scanRoutes_pairs cong: sum.case_cong)

text \<open>The scan reads the router's store and metric list only, not its route list.\<close>

lemma scanPairs_cong:
  "Storage r' = Storage r \<Longrightarrow> biFuncCoefficients r' = biFuncCoefficients r \<Longrightarrow>
   scanPairs r' st q ps best = scanPairs r st q ps best"
  by (induction ps arbitrary: best) (simp_all add: computeScore_def split: sum.splits)

lemma scanPairs_skip:
  assumes "Get (Storage r) (Utterance (snd p)) st = Inr em" and "length em \<noteq> length q"
  shows "scanPairs r st q (ps @ p # qs) best = scanPairs r st q (ps @ qs) best"
  using assms by (simp add: scanPairs_append split: sum.splits)



text \<open>A scan that ends without error has folded the update over the scored candidates.\<close>

lemma scanPairs_fold:
  "scanPairs r st q ps best = Inr best' \<Longrightarrow> best' = foldl better best (scored r st q ps)"
  by (induction ps arbitrary: best) (auto simp: better_def split: sum.splits if_splits)

text \<open>
  What the fold of the strict update returns: either the start value, no candidate being
  above it, or the first candidate that carries the largest score.
\<close>

lemma foldl_better_first:
  "foldl better (n0, s0) cs = (n, s) \<Longrightarrow>
     ((n, s) = (n0, s0) \<and> (\<forall>c\<in>set cs. snd c \<le> s0)) \<or>
     (s0 < s \<and> (\<exists>before after. cs = before @ (n, s) # after \<and>
        (\<forall>c\<in>set before. snd c < s) \<and> (\<forall>c\<in>set after. snd c \<le> s)))"
proof (induction cs arbitrary: n0 s0)
  case Nil
  then show ?case by simp
next
  case (Cons c cs)
  show ?case
  proof (cases "snd c > s0")
    case True
    then have "better (n0, s0) c = (fst c, snd c)"
      by (simp add: better_def)
    with Cons.prems have "foldl better (fst c, snd c) cs = (n, s)"
      by simp
    from Cons.IH [OF this] show ?thesis
    proof
      assume a: "(n, s) = (fst c, snd c) \<and> (\<forall>c'\<in>set cs. snd c' \<le> snd c)"
      then have "c # cs = [] @ (n, s) # cs" "\<forall>c'\<in>set cs. snd c' \<le> s" "s0 < s"
        using True by auto
      then have "s0 < s \<and> c # cs = [] @ (n, s) # cs \<and>
          (\<forall>c'\<in>set []. snd c' < s) \<and> (\<forall>c'\<in>set cs. snd c' \<le> s)"
        by simp
      then show ?thesis by blast
    next
      assume "snd c < s \<and> (\<exists>before after. cs = before @ (n, s) # after \<and>
        (\<forall>c\<in>set before. snd c < s) \<and> (\<forall>c\<in>set after. snd c \<le> s))"
      then obtain before after where b: "snd c < s" "cs = before @ (n, s) # after"
        "\<forall>c\<in>set before. snd c < s" "\<forall>c\<in>set after. snd c \<le> s" by blast
      from b True have "s0 < s \<and> c # cs = (c # before) @ (n, s) # after \<and>
          (\<forall>c'\<in>set (c # before). snd c' < s) \<and> (\<forall>c'\<in>set after. snd c' \<le> s)"
        by simp
      then show ?thesis by blast
    qed
  next
    case False
    then have "better (n0, s0) c = (n0, s0)"
      by (simp add: better_def)
    with Cons.prems have "foldl better (n0, s0) cs = (n, s)"
      by simp
    from Cons.IH [OF this] show ?thesis
    proof
      assume "(n, s) = (n0, s0) \<and> (\<forall>c\<in>set cs. snd c \<le> s0)"
      with False show ?thesis by simp
    next
      assume "s0 < s \<and> (\<exists>before after. cs = before @ (n, s) # after \<and>
        (\<forall>c\<in>set before. snd c < s) \<and> (\<forall>c\<in>set after. snd c \<le> s))"
      then obtain before after where b: "s0 < s" "cs = before @ (n, s) # after"
        "\<forall>c\<in>set before. snd c < s" "\<forall>c\<in>set after. snd c \<le> s" by blast
      from b False have "s0 < s \<and> c # cs = (c # before) @ (n, s) # after \<and>
          (\<forall>c'\<in>set (c # before). snd c' < s) \<and> (\<forall>c'\<in>set after. snd c' \<le> s)"
        by simp
      then show ?thesis by blast
    qed
  qed
qed

lemma Match_Inr_scan:
  assumes "Encoder r utterance = Inr queryVec" and "Match r st utterance = Inr (name, score)"
  shows "name \<noteq> '''' \<and> foldl better ('''', 0) (candidates r st queryVec) = (name, score)"
proof -
  from assms obtain b where b: "scanRoutes r st queryVec (Routes r) ('''', 0) = Inr b"
    and nb: "fst b \<noteq> ''''" "b = (name, score)"
    by (auto simp: Match_def split: sum.splits prod.splits if_splits)
  from b have "b = foldl better ('''', 0) (candidates r st queryVec)"
    unfolding candidates_def scanRoutes_pairs by (rule scanPairs_fold)
  with nb show ?thesis by simp
qed

subsection \<open>The in-memory store along a history\<close>

lemma memory_run_undisturbed:
  "store s = Some m \<Longrightarrow> \<forall>c\<in>set calls. \<not> disturbsKey k c \<Longrightarrow>
     \<exists>s' m'. memory_run s calls = Inr s' \<and> store s' = Some m' \<and> m' k = m k"
proof (induction calls arbitrary: s m)
  case Nil
  then show ?case by simp
next
  case (Cons c calls)
  then obtain u where c: "c = CallSet u" "Utterance u \<noteq> k"
    by (cases c) auto
  let ?s1 = "s\<lparr>store := Some (m(Utterance u \<mapsto> Embed u))\<rparr>"
  have "store ?s1 = Some (m(Utterance u \<mapsto> Embed u))" by simp
  from Cons.IH [OF this] Cons.prems(2)
  obtain s' m' where "memory_run ?s1 calls = Inr s'" "store s' = Some m'"
    "m' k = (m(Utterance u \<mapsto> Embed u)) k" by auto
  with c Cons.prems(1) show ?case
    by (simp add: memory_Set_def)
qed

lemma memory_Get_after_Set:
  assumes "memory_Set s u = Inr (err, s1)" and "\<forall>c\<in>set calls. \<not> disturbsKey (Utterance u) c"
  shows "err = None \<and> (\<exists>s2. memory_run s1 calls = Inr s2 \<and>
           memory_Get s2 (Utterance u) = Inr (Embed u))"
proof -
  from assms(1) obtain m where m: "store s = Some m" "err = None"
    "s1 = s\<lparr>store := Some (m(Utterance u \<mapsto> Embed u))\<rparr>"
    by (auto simp: memory_Set_def split: option.splits)
  then have "store s1 = Some (m(Utterance u \<mapsto> Embed u))" by simp
  from memory_run_undisturbed [OF this assms(2)] m(2) show ?thesis
    by (auto simp: memory_Get_def)
qed

lemma memory_run_never_set:
  "memory_run s calls = Inr s' \<Longrightarrow> \<forall>c\<in>set calls. \<not> setsKey k c \<Longrightarrow>
   memory_Get s k = Inl (Errorf ''key does not exist: '' None) \<Longrightarrow>
   memory_Get s' k = Inl (Errorf ''key does not exist: '' None)"
proof (induction calls arbitrary: s)
  case Nil
  then show ?case by simp
next
  case (Cons c calls)
  show ?case
  proof (cases c)
    case (CallSet u)
    with Cons.prems obtain m where m: "store s = Some m" "Utterance u \<noteq> k"
      "memory_run (s\<lparr>store := Some (m(Utterance u \<mapsto> Embed u))\<rparr>) calls = Inr s'"
      by (auto simp: memory_Set_def split: option.splits)
    from Cons.prems(3) m(1,2)
    have "memory_Get (s\<lparr>store := Some (m(Utterance u \<mapsto> Embed u))\<rparr>) k =
            Inl (Errorf ''key does not exist: '' None)"
      by (simp add: memory_Get_def split: option.splits)
    with Cons.IH [OF m(3)] Cons.prems(2) show ?thesis by simp
  next
    case CallClose
    with Cons.prems have r: "memory_run (snd (memory_Close s)) calls = Inr s'" by simp
    have "memory_Get (snd (memory_Close s)) k = Inl (Errorf ''key does not exist: '' None)"
      by (simp add: memory_Get_def memory_Close_def)
    with Cons.IH [OF r] Cons.prems(2) show ?thesis by simp
  qed
qed

subsection \<open>The examples evaluated\<close>

lemma exEncode: "Encoder exRouter ''hey'' = Inr [9 / 10, 1 / 10, 0]"
  by (simp add: exRouter_def exEncoder_def)

lemma exMatch: "Match exRouter exStored ''hey'' = Inr (''chitchat'', 9 / 10)"
  by (simp add: Match_def exRouter_def exStored_def exEncoder_def exRoutes_def mapStore_def
      computeScore_def SimilarityDotMatrix_def)

lemma exCandidates:
  "candidates exRouter exStored [9 / 10, 1 / 10, 0] =
     [(''chitchat'', 9 / 10), (''greeting'', 9 / 10)]"
  by (simp add: candidates_def scanOrder_def exRouter_def exStored_def exRoutes_def
      mapStore_def computeScore_def SimilarityDotMatrix_def)

lemma exRoutes_split:
  "Routes exRouter =
     [] @ \<lparr>Name = ''chitchat'',
            Utterances = [\<lparr>Utterance = ''hi'', Embed = []\<rparr>, \<lparr>Utterance = ''bye'', Embed = []\<rparr>]\<rparr> #
       [\<lparr>Name = ''greeting'', Utterances = [\<lparr>Utterance = ''hello'', Embed = []\<rparr>]\<rparr>]"
  by (simp add: exRouter_def exRoutes_def)

lemma exNewRouter:
  "NewRouter SetEmbedding exKnownRoutes exEncoder mapStore Map.empty [] =
     (Inr \<lparr>Routes = exKnownRoutes, Encoder = exEncoder, Storage = mapStore,
           biFuncCoefficients = []\<rparr>,
      [''hi'' \<mapsto> [1, 0, 0], ''hello'' \<mapsto> [1, 0, 0]])"
  by (simp add: NewRouter_def SetEmbedding_def exKnownRoutes_def exEncoder_def mapStore_def)

section \<open>What construction returns\<close>

text \<open>
  Whatever options \<^verbatim>\<open>NewRouter\<close> is given, the router it returns has an empty metric
  list: the body builds the struct without the field and never calls an option.
\<close>

lemma NewRouter_metric_list_empty:
  "NewRouter se routes enc sto st opts = (Inr router, st') \<Longrightarrow> biFuncCoefficients router = []"
  by (auto simp: NewRouter_def split: prod.splits option.splits)

text \<open>
  Claim C1 says that the router returned by a successful \<^verbatim>\<open>NewRouter\<close> call has a
  metric list holding exactly the (similarity function, coefficient) pairs of the options
  supplied, in the order given. Evaluated on no routes and the single option
  \<^verbatim>\<open>WithSimilarityDotMatrix(1)\<close>: the call succeeds and the metric list of its router
  is empty, whereas the option applied to that router appends the pair of the dot product
  and 1.
\<close>

theorem NewRouter_drops_options:
  "fst (NewRouter SetEmbedding [] exEncoder mapStore Map.empty [WithSimilarityDotMatrix 1]) =
     Inr \<lparr>Routes = [], Encoder = exEncoder, Storage = mapStore, biFuncCoefficients = []\<rparr> \<and>
   biFuncCoefficients
     (WithSimilarityDotMatrix 1
        \<lparr>Routes = [], Encoder = exEncoder, Storage = mapStore, biFuncCoefficients = []\<rparr>) =
     [\<lparr>Func = SimilarityDotMatrix, Coefficient = 1\<rparr>]"
  by (simp add: NewRouter_def WithSimilarityDotMatrix_def)

text \<open>
  Claim C2 as stated says that after a successful \<^verbatim>\<open>NewRouter\<close> call every utterance
  inside the returned router's routes carries the vector the encoder produced for its
  text. On two routes with one utterance each, both known to the encoder, the call
  succeeds, the encoder's vector for either text is \<open>[1, 0, 0]\<close>, and the utterances of
  the returned router still have the empty embedding they were given.
\<close>

theorem NewRouter_embedding_counterexample:
  "fst (NewRouter SetEmbedding exKnownRoutes exEncoder mapStore Map.empty []) =
     Inr \<lparr>Routes = exKnownRoutes, Encoder = exEncoder, Storage = mapStore,
          biFuncCoefficients = []\<rparr> \<and>
   map Embed (allUtterances exKnownRoutes) = [[], []] \<and>
   map Utterance (allUtterances exKnownRoutes) = [''hi'', ''hello''] \<and>
   exEncoder ''hi'' = Inr [1, 0, 0] \<and> exEncoder ''hello'' = Inr [1, 0, 0]"
  by (simp add: exNewRouter) (simp add: exKnownRoutes_def allUtterances_def exEncoder_def)

text \<open>
  Claim C2, amended. After a successful \<^verbatim>\<open>NewRouter\<close> call the routes of the returned
  router are the routes passed in, every utterance with the embedding field it came with;
  the encoder has answered for the text of every utterance; and the vector it produced
  was attached by \<^verbatim>\<open>SetEmbedding\<close> to the loop's copy of the utterance, which is what
  the store received: its state is the one left by one \<^verbatim>\<open>Store\<close> call per utterance,
  in route order and then utterance order, each on that copy.
\<close>

theorem NewRouter_routes_as_given:
  assumes "NewRouter se routes enc sto st opts = (Inr router, st')"
  shows "Routes router = routes \<and>
         (\<forall>u\<in>set (allUtterances routes). \<exists>en. enc (Utterance u) = Inr en) \<and>
         st' = foldl (\<lambda>s u. snd (Store sto u s)) st
                 (map (embedded se enc) (allUtterances routes))"
proof -
  from assms have r: "Routes router = routes"
    and e: "encodeUtterances se enc sto (allUtterances routes) st = (None, st')"
    by (auto simp: NewRouter_def encodeRoutes_flat split: prod.splits option.splits)
  from encodeUtterances_success [OF e] r show ?thesis by simp
qed

theorem NewRouter_routes_as_given_witness:
  "NewRouter SetEmbedding exKnownRoutes exEncoder mapStore Map.empty [] =
     (Inr \<lparr>Routes = exKnownRoutes, Encoder = exEncoder, Storage = mapStore,
           biFuncCoefficients = []\<rparr>,
      [''hi'' \<mapsto> [1, 0, 0], ''hello'' \<mapsto> [1, 0, 0]]) \<and>
   [''hi'' \<mapsto> [1, 0, 0], ''hello'' \<mapsto> [1::real, 0, 0]] =
     foldl (\<lambda>s u. snd (Store mapStore u s)) Map.empty
       (map (embedded SetEmbedding exEncoder) (allUtterances exKnownRoutes))"
  using NewRouter_routes_as_given [OF exNewRouter] by (simp add: exNewRouter)

text \<open>
  The two ways construction fails on the utterance that follows \<open>before\<close>, all of
  \<open>before\<close> having been encoded and stored: no router is returned and the store is in
  the state the last call left it in, so nothing is written for a later utterance. The
  error of a failed \<^verbatim>\<open>Store\<close> is formatted with the text of the utterance; the error of
  a failed \<^verbatim>\<open>Encode\<close> wraps the cause alone.
\<close>

lemma NewRouter_encoding_failure:
  assumes "allUtterances routes = before @ utter # after"
    and "encodeUtterances se enc sto before st = (None, st1)"
    and "enc (Utterance utter) = Inl cause"
  shows "NewRouter se routes enc sto st opts =
         (Inl (Errorf ''error encoding utterance: '' (Some cause)), st1)"
  using assms by (simp add: NewRouter_def encodeRoutes_flat encodeUtterances_append)

lemma NewRouter_storing_failure:
  assumes "allUtterances routes = before @ utter # after"
    and "encodeUtterances se enc sto before st = (None, st1)"
    and "enc (Utterance utter) = Inr en"
    and "se utter en = (None, utter')"
    and "Store sto utter' st1 = (Some cause, st2)"
  shows "NewRouter se routes enc sto st opts =
         (Inl (Errorf (''error storing utterance: '' @ Utterance utter' @ '': '') (Some cause)),
          st2)"
  using assms by (simp add: NewRouter_def encodeRoutes_flat encodeUtterances_append)

text \<open>
  Claim C3 says that when the encoding or storing of an utterance fails, construction
  returns a failure that identifies the text of that utterance together with the cause,
  returns no router, and writes nothing to the store for a later utterance. Evaluated on
  three utterances \<open>hi\<close>, \<open>bye\<close>, \<open>hello\<close> with an encoder that fails on \<open>bye\<close>:
  no router is returned and the store holds \<open>hi\<close> only, but the failure is the cause
  behind the fixed prefix; the text \<open>bye\<close> is no part of it.
\<close>

theorem NewRouter_encode_error_omits_text:
  "map Utterance (allUtterances exRoutes) = [''hi'', ''bye'', ''hello''] \<and>
   exEncoder ''hi'' = Inr [1, 0, 0] \<and>
   exEncoder ''bye'' = Inl (PortError ''backend down'') \<and>
   NewRouter SetEmbedding exRoutes exEncoder mapStore Map.empty [] =
     (Inl (Errorf ''error encoding utterance: '' (Some (PortError ''backend down''))),
      [''hi'' \<mapsto> [1, 0, 0]])"
  by (simp add: NewRouter_def SetEmbedding_def exRoutes_def exEncoder_def mapStore_def
      allUtterances_def)

section \<open>Linear composition of the score\<close>

lemma scoreLoop_sum:
  "scoreLoop fns q c s = s + (\<Sum>fn\<leftarrow>fns. Coefficient fn * Func fn q c)"
  by (induction fns arbitrary: s) (simp_all add: add.assoc)

text \<open>
  Claim C5. The score \<^verbatim>\<open>computeScore\<close> gives a candidate is the sum, over the
  router's weighted metrics in list order, of the coefficient times the metric applied to
  the query vector and the candidate vector. The equation holds for all vectors, in
  particular for those of equal length.
\<close>

theorem computeScore_linear:
  "computeScore r queryVec indexVec =
     (\<Sum>fn\<leftarrow>biFuncCoefficients r. Coefficient fn * Func fn queryVec indexVec)"
  by (simp add: computeScore_def scoreLoop_sum)

section \<open>The winner of a match\<close>

text \<open>
  Claim C4. The running best of the scan changes only at a candidate whose score is
  strictly greater than it: a successful \<^verbatim>\<open>Match\<close> returns the fold of that update,
  from the empty name and 0, over the scored candidates in route-then-utterance order.
  So among candidates of equal score the one scanned first wins: every candidate scanned
  before the winner has a strictly smaller score, and every candidate scanned after it,
  ties included, has a score that is not greater and has left the winner in place.
\<close>

theorem Match_first_scanned_wins:
  assumes "Encoder r utterance = Inr queryVec" and "Match r st utterance = Inr (name, score)"
  shows "foldl better ('''', 0) (candidates r st queryVec) = (name, score) \<and>
         (\<exists>before after. candidates r st queryVec = before @ (name, score) # after \<and>
           (\<forall>c\<in>set before. snd c < score) \<and> (\<forall>c\<in>set after. snd c \<le> score))"
  using Match_Inr_scan [OF assms]
    foldl_better_first [of "''''" 0 "candidates r st queryVec" name score]
  by auto

theorem Match_first_scanned_wins_witness:
  "Encoder exRouter ''hey'' = Inr [9 / 10, 1 / 10, 0] \<and>
   Match exRouter exStored ''hey'' = Inr (''chitchat'', 9 / 10) \<and>
   candidates exRouter exStored [9 / 10, 1 / 10, 0] =
     [] @ (''chitchat'', 9 / 10) # [(''greeting'', 9 / 10)] \<and>
   foldl better ('''', 0) (candidates exRouter exStored [9 / 10, 1 / 10, 0]) =
     (''chitchat'', 9 / 10) \<and>
   (\<exists>before after. candidates exRouter exStored [9 / 10, 1 / 10, 0] =
       before @ (''chitchat'', 9 / 10) # after \<and>
     (\<forall>c\<in>set before. snd c < 9 / 10) \<and> (\<forall>c\<in>set after. snd c \<le> 9 / 10))"
  using Match_first_scanned_wins [OF exEncode exMatch]
  by (simp add: exEncode exMatch exCandidates)

text \<open>
  Claim C9. Whenever \<^verbatim>\<open>Match\<close> returns without a failure, the score returned is
  strictly greater than 0 and the route name returned is not empty; the pair returned is
  the route name and computed score of one of the scored candidates, so a candidate
  whose total weighted score is zero or negative is never the winner.
\<close>

theorem Match_positive_score:
  assumes "Match r st utterance = Inr (name, score)"
  shows "0 < score \<and> name \<noteq> '''' \<and>
         (\<exists>queryVec. Encoder r utterance = Inr queryVec \<and>
            (name, score) \<in> set (candidates r st queryVec))"
proof -
  from assms obtain queryVec where e: "Encoder r utterance = Inr queryVec"
    by (auto simp: Match_def split: sum.splits)
  from Match_Inr_scan [OF e assms]
    foldl_better_first [of "''''" 0 "candidates r st queryVec" name score]
  show ?thesis using e by auto
qed

theorem Match_positive_score_witness:
  "Match exRouter exStored ''hey'' = Inr (''chitchat'', 9 / 10) \<and>
   (0::real) < 9 / 10 \<and> ''chitchat'' \<noteq> ''''"
  using Match_positive_score [OF exMatch] by (simp add: exMatch)

text \<open>
  The case the claim mentions: the stored utterances scored by the Manhattan distance
  alone, with coefficient 1, and a query whose vector is that of a stored utterance. The
  identical candidate scores 0 and no route is found.
\<close>

lemma exDistanceOnly:
  "Match (exRouter\<lparr>biFuncCoefficients := [\<lparr>Func = ManhattanDistance, Coefficient = 1\<rparr>]\<rparr>)
     exStored ''hi'' =
   Inl (Errorf ''no route found: '' (Some (ErrNoRouteFound ''no route found'' ''hi'')))"
  by (simp add: Match_def exRouter_def exStored_def exEncoder_def exRoutes_def mapStore_def
      computeScore_def ManhattanDistance_def)

section \<open>Candidates that are skipped, and scans that fail\<close>

text \<open>
  Claim C6. A candidate whose stored embedding has a length other than that of the query
  embedding is skipped without error and contributes nothing: whatever the components of
  that embedding, \<^verbatim>\<open>Match\<close> returns the same route name and score (or the same
  failure) as on the router without that utterance.
\<close>

theorem Match_skips_length_mismatch:
  assumes "Encoder r utterance = Inr queryVec"
    and "Routes r = rs1 @ route # rs2"
    and "Utterances route = us1 @ ut # us2"
    and "Get (Storage r) (Utterance ut) st = Inr em"
    and "length em \<noteq> length queryVec"
  shows "Match r st utterance =
         Match (r\<lparr>Routes := rs1 @ route\<lparr>Utterances := us1 @ us2\<rparr> # rs2\<rparr>) st utterance"
proof -
  let ?r' = "r\<lparr>Routes := rs1 @ route\<lparr>Utterances := us1 @ us2\<rparr> # rs2\<rparr>"
  let ?ps = "scanOrder rs1 @ map (Pair (Name route)) us1"
  let ?qs = "map (Pair (Name route)) us2 @ scanOrder rs2"
  have o: "scanOrder (Routes r) = ?ps @ (Name route, ut) # ?qs"
    by (simp add: assms(2,3) scanOrder_append scanOrder_Cons)
  have o': "scanOrder (Routes ?r') = ?ps @ ?qs"
    by (simp add: scanOrder_append scanOrder_Cons)
  have "scanPairs r st queryVec (scanOrder (Routes r)) ('''', 0) =
        scanPairs r st queryVec (?ps @ ?qs) ('''', 0)"
    unfolding o using assms(4,5) by (intro scanPairs_skip [where em = em]) simp_all
  also have "\<dots> = scanPairs ?r' st queryVec (scanOrder (Routes ?r')) ('''', 0)"
    unfolding o' by (rule scanPairs_cong [symmetric]) simp_all
  finally show ?thesis
    using assms(1) by (simp add: Match_pairs)
qed

theorem Match_skips_length_mismatch_witness:
  "Encoder exRouter ''hey'' = Inr [9 / 10, 1 / 10, 0] \<and>
   Get (Storage exRouter) ''bye'' exStored = Inr [5, 5] \<and>
   length [5, 5 :: real] \<noteq> length [9 / 10, 1 / 10, 0 :: real] \<and>
   Match exRouter exStored ''hey'' = Inr (''chitchat'', 9 / 10) \<and>
   Match (exRouter\<lparr>Routes := exKnownRoutes\<rparr>) exStored ''hey'' = Inr (''chitchat'', 9 / 10)"
  using Match_skips_length_mismatch [of exRouter "''hey''" "[9 / 10, 1 / 10, 0]" "[]"
      "\<lparr>Name = ''chitchat'',
        Utterances = [\<lparr>Utterance = ''hi'', Embed = []\<rparr>, \<lparr>Utterance = ''bye'', Embed = []\<rparr>]\<rparr>"
      "[\<lparr>Name = ''greeting'', Utterances = [\<lparr>Utterance = ''hello'', Embed = []\<rparr>]\<rparr>]"
      "[\<lparr>Utterance = ''hi'', Embed = []\<rparr>]" "\<lparr>Utterance = ''bye'', Embed = []\<rparr>" "[]"
      exStored "[5, 5]"]
  by (simp add: exEncode exMatch exRoutes_split exKnownRoutes_def)
     (simp add: exRouter_def mapStore_def exStored_def)





section \<open>Set and Get on the in-memory store\<close>

text \<open>
  Claim C10. On the in-memory store, once \<^verbatim>\<open>Set\<close> has returned for an utterance with
  text \<open>k\<close> and embedding \<open>e\<close>, it has returned no error, and after any later calls
  that neither close the store nor set \<open>k\<close> again, \<^verbatim>\<open>Get\<close> of \<open>k\<close> returns
  exactly \<open>e\<close> and no error. And on a store made by \<^verbatim>\<open>NewStore\<close>, after a history
  of calls in which no \<^verbatim>\<open>Set\<close> had the key \<open>k\<close>, \<^verbatim>\<open>Get\<close> of \<open>k\<close> returns
  an error.
\<close>

theorem memory_Set_then_Get:
  "(memory_Set s u = Inr (err, s1) \<and> (\<forall>c\<in>set calls. \<not> disturbsKey (Utterance u) c) \<longrightarrow>
      err = None \<and> (\<exists>s2. memory_run s1 calls = Inr s2 \<and>
        memory_Get s2 (Utterance u) = Inr (Embed u))) \<and>
   (memory_run memory_NewStore history = Inr s' \<and> (\<forall>c\<in>set history. \<not> setsKey k c) \<longrightarrow>
      memory_Get s' k = Inl (Errorf ''key does not exist: '' None))"
proof (intro conjI impI)
  assume a: "memory_Set s u = Inr (err, s1) \<and> (\<forall>c\<in>set calls. \<not> disturbsKey (Utterance u) c)"
  then show "err = None"
    using memory_Get_after_Set by blast
  from a show "\<exists>s2. memory_run s1 calls = Inr s2 \<and> memory_Get s2 (Utterance u) = Inr (Embed u)"
    using memory_Get_after_Set by blast
next
  assume "memory_run memory_NewStore history = Inr s' \<and> (\<forall>c\<in>set history. \<not> setsKey k c)"
  moreover have "memory_Get memory_NewStore k = Inl (Errorf ''key does not exist: '' None)"
    by (simp add: memory_Get_def memory_NewStore_def)
  ultimately show "memory_Get s' k = Inl (Errorf ''key does not exist: '' None)"
    using memory_run_never_set by blast
qed

theorem memory_Set_then_Get_witness:
  "memory_Set memory_NewStore \<lparr>Utterance = ''hi'', Embed = [1, 0, 0]\<rparr> =
     Inr (None, \<lparr>store = Some [''hi'' \<mapsto> [1, 0, 0]]\<rparr>) \<and>
   \<not> disturbsKey ''hi'' (CallSet \<lparr>Utterance = ''bye'', Embed = [5, 5]\<rparr>) \<and>
   (\<exists>s2. memory_run \<lparr>store = Some [''hi'' \<mapsto> [1, 0, 0]]\<rparr>
            [CallSet \<lparr>Utterance = ''bye'', Embed = [5, 5]\<rparr>] = Inr s2 \<and>
          memory_Get s2 ''hi'' = Inr [1, 0, 0]) \<and>
   memory_run memory_NewStore [CallSet \<lparr>Utterance = ''bye'', Embed = [5, 5]\<rparr>, CallClose] =
     Inr \<lparr>store = None\<rparr> \<and>
   \<not> setsKey ''hi'' (CallSet \<lparr>Utterance = ''bye'', Embed = [5, 5]\<rparr>) \<and>
   \<not> setsKey ''hi'' CallClose \<and>
   memory_Get \<lparr>store = None\<rparr> ''hi'' = Inl (Errorf ''key does not exist: '' None)"
  using memory_Set_then_Get [of memory_NewStore "\<lparr>Utterance = ''hi'', Embed = [1, 0, 0]\<rparr>" None
      "\<lparr>store = Some [''hi'' \<mapsto> [1, 0, 0]]\<rparr>" "[CallSet \<lparr>Utterance = ''bye'', Embed = [5, 5]\<rparr>]"
      "[CallSet \<lparr>Utterance = ''bye'', Embed = [5, 5]\<rparr>, CallClose]" "\<lparr>store = None\<rparr>" "''hi''"]
  by (simp add: memory_Set_def memory_NewStore_def memory_Close_def)

end
